theory Spec2Isabelle
  imports Complex_Main
begin

section \<open>Data model (types.ts)\<close>

text \<open>
  JavaScript numbers are modelled as \<open>int\<close> where the program only ever holds integers
  (score, combo, multiplier, health: all far below \<open>2^53\<close>, where doubles are exact) and
  as \<open>real\<close> where they are timestamps or coordinates.
\<close>

datatype GameStatus = LOADING | IDLE | PLAYING | GAME_OVER | VICTORY

datatype HandType = left | right

datatype CutDirection = UP | DOWN | LEFT | RIGHT | ANY

text \<open>
  \<open>NoteData\<close>: the three trailing fields are optional in the source (\<open>hit?\<close>,
  \<open>missed?\<close>, \<open>hitTime?\<close>); \<open>None\<close> is the absent field. The fields \<open>id\<close> and
  \<open>type\<close> carry a suffix because the plain names are taken in HOL.
\<close>

record NoteData =
  id_note :: string
  time :: real
  lineIndex :: int
  lineLayer :: int
  type_note :: HandType
  cutDirection :: CutDirection
  hit :: "bool option"
  missed :: "bool option"
  hitTime :: "real option"

section \<open>Game state of the App component\<close>

text \<open>
  The React state cells of \<open>App\<close> (\<open>gameStatus\<close>, \<open>score\<close>, \<open>combo\<close>,
  \<open>multiplier\<close>, \<open>health\<close>), the shared mutable array \<open>DEMO_CHART\<close>, the muted audio
  element that serves as game clock, the queue of callbacks registered with
  \<open>setTimeout\<close>, and the messages shown with \<open>alert\<close>.
\<close>

datatype task = EndGame bool

record GameState =
  gameStatus :: GameStatus
  score :: int
  combo :: int
  multiplier :: int
  health :: int
  chart :: "NoteData list"
  audioPlaying :: bool
  timers :: "task list"
  alerts :: "string list"

text \<open>The values given to \<open>useState\<close>; the chart is whatever \<open>DEMO_CHART\<close> holds.\<close>

definition initialState :: "NoteData list \<Rightarrow> GameState" where
  "initialState c =
     \<lparr>gameStatus = LOADING, score = 0, combo = 0, multiplier = 1, health = 100,
      chart = c, audioPlaying = False, timers = [], alerts = []\<rparr>"

subsection \<open>handleNoteHit\<close>

text \<open>
  The threshold chain inside the \<open>setCombo\<close> updater, as a function of \<open>newCombo\<close>.
\<close>

definition comboMultiplier :: "int \<Rightarrow> int" where
  "comboMultiplier newCombo =
     (if newCombo > 30 then 8
      else if newCombo > 20 then 4
      else if newCombo > 10 then 2
      else 1)"

text \<open>
  \<open>handleNoteHit\<close> is built by \<open>useCallback(..., [multiplier])\<close>: the \<open>multiplier\<close> read in
  the \<open>setScore\<close> updater is the value the closure captured when the component last
  rendered, so it is a parameter of its own here, distinct from the state cell that the
  \<open>setCombo\<close> updater overwrites. The note argument is not used by the body. Vibration and
  the sound effect do not touch the game state and are left out.
\<close>

definition handleNoteHit :: "int \<Rightarrow> NoteData \<Rightarrow> bool \<Rightarrow> GameState \<Rightarrow> GameState" where
  "handleNoteHit capturedMultiplier note goodCut st =
     (let points = (if goodCut then 100 + 50 else 100);
          newCombo = combo st + 1
      in st\<lparr>combo := newCombo,
            multiplier := comboMultiplier newCombo,
            score := score st + points * capturedMultiplier,
            health := min 100 (health st + 2)\<rparr>)"

subsection \<open>endGame and handleNoteMiss\<close>

definition endGame :: "bool \<Rightarrow> GameState \<Rightarrow> GameState" where
  "endGame victory st =
     st\<lparr>gameStatus := (if victory then VICTORY else GAME_OVER), audioPlaying := False\<rparr>"

text \<open>
  \<open>setTimeout(() => endGame(false), 0)\<close> appends a task to the timer queue; the task runs
  only after the current update has returned.
\<close>

definition handleNoteMiss :: "NoteData \<Rightarrow> GameState \<Rightarrow> GameState" where
  "handleNoteMiss note st =
     (let newHealth = health st - 15
      in if newHealth \<le> 0
         then st\<lparr>combo := 0, multiplier := 1, health := 0,
                 timers := timers st @ [EndGame False]\<rparr>
         else st\<lparr>combo := 0, multiplier := 1, health := newHealth\<rparr>)"

fun runTask :: "task \<Rightarrow> GameState \<Rightarrow> GameState" where
  "runTask (EndGame victory) st = endGame victory st"

text \<open>The event loop, once the current update is over: every queued task in order.\<close>

definition runTimers :: "GameState \<Rightarrow> GameState" where
  "runTimers st = foldl (\<lambda>s t. runTask t s) (st\<lparr>timers := []\<rparr>) (timers st)"

subsection \<open>Sequences of judge events\<close>

text \<open>
  A judge event as \<open>GameScene\<close> reports it, or a re-render of \<open>App\<close>. The scene calls
  the \<open>handleNoteHit\<close> it was handed at the last render; \<open>useCallback\<close> builds a new
  one, capturing the \<open>multiplier\<close> cell of that moment, only when the component renders
  again. Several notes can be judged between two renders, and then they all go through
  the same closure. A session is therefore a pair: the multiplier held by the closure in
  use, and the state cells.
\<close>

datatype event = Hit NoteData bool | Miss NoteData | Render

type_synonym session = "int \<times> GameState"

fun step :: "session \<Rightarrow> event \<Rightarrow> session" where
  "step (m, st) (Hit note goodCut) = (m, handleNoteHit m note goodCut st)"
| "step (m, st) (Miss note) = (m, handleNoteMiss note st)"
| "step (m, st) Render = (multiplier st, st)"

definition run :: "session \<Rightarrow> event list \<Rightarrow> session" where
  "run s evs = foldl step s evs"

text \<open>After the first render the closure holds the initial multiplier cell.\<close>

definition initialSession :: "NoteData list \<Rightarrow> session" where
  "initialSession c = (multiplier (initialState c), initialState c)"

text \<open>Event lists made of direction-correct hits and renders only, and their hits.\<close>

fun goodHitOrRender :: "event \<Rightarrow> bool" where
  "goodHitOrRender (Hit note goodCut) = goodCut"
| "goodHitOrRender (Miss note) = False"
| "goodHitOrRender Render = True"

fun isHit :: "event \<Rightarrow> bool" where
  "isHit (Hit note goodCut) = True"
| "isHit (Miss note) = False"
| "isHit Render = False"

definition countHits :: "event list \<Rightarrow> nat" where
  "countHits evs = length (filter isHit evs)"

subsection \<open>startGame\<close>

text \<open>
  What \<open>startGame\<close> reads from its surroundings: the camera flag, what
  \<open>audioCtx.resume()\<close> does when the context is suspended (the \<open>await\<close> stands outside
  the \<open>try\<close> block, so a rejection leaves \<open>startGame\<close> before any state is written),
  whether \<open>audioRef.current\<close> is set, and whether the promise of \<open>play()\<close> resolves.
\<close>

datatype resume_outcome = NotSuspended | ResumeResolved | ResumeRejected

record StartEnv =
  isCameraReady :: bool
  audioCtxResume :: resume_outcome
  audioRefCurrent :: bool
  playResolves :: bool

datatype start_error = UnhandledRejection

text \<open>The body of the \<open>forEach\<close> over \<open>DEMO_CHART\<close>: two assignments per note.\<close>

definition resetNote :: "NoteData \<Rightarrow> NoteData" where
  "resetNote n = n\<lparr>hit := Some False, missed := Some False\<rparr>"

text \<open>The four setters and the \<open>forEach\<close>, which run before the \<open>try\<close> block.\<close>

definition resetGame :: "GameState \<Rightarrow> GameState" where
  "resetGame st =
     st\<lparr>score := 0, combo := 0, multiplier := 1, health := 100,
        chart := map resetNote (chart st)\<rparr>"

definition alertText :: string where
  "alertText = ''Could not start game timer. Please interact with the page first.''"

text \<open>The \<open>try\<close>/\<open>catch\<close> block: the phase is set only after \<open>play()\<close> has resolved.\<close>

definition startAudio :: "StartEnv \<Rightarrow> GameState \<Rightarrow> GameState" where
  "startAudio env st =
     (if audioRefCurrent env
      then (if playResolves env
            then st\<lparr>audioPlaying := True, gameStatus := PLAYING\<rparr>
            else st\<lparr>alerts := alerts st @ [alertText]\<rparr>)
      else st)"

definition startGame :: "StartEnv \<Rightarrow> GameState \<Rightarrow> start_error + GameState" where
  "startGame env st =
     (if \<not> isCameraReady env then Inr st
      else if audioCtxResume env = ResumeRejected then Inl UnhandledRejection
      else Inr (startAudio env (resetGame st)))"

subsection \<open>Concrete inputs\<close>

definition sampleNote :: NoteData where
  "sampleNote =
     \<lparr>id_note = ''n1'', time = 4, lineIndex = 1, lineLayer = 0, type_note = left,
      cutDirection = DOWN, hit = None, missed = None, hitTime = None\<rparr>"

text \<open>A note that was cut in an earlier session.\<close>

definition judgedNote :: NoteData where
  "judgedNote = sampleNote\<lparr>hit := Some True, hitTime := Some 4\<rparr>"

definition idleState :: GameState where
  "idleState = (initialState [judgedNote])\<lparr>gameStatus := IDLE, score := 700, combo := 3\<rparr>"

text \<open>A session in progress with health \<open>h\<close>.\<close>

definition playingState :: "int \<Rightarrow> GameState" where
  "playingState h = (initialState [sampleNote])\<lparr>gameStatus := PLAYING, health := h\<rparr>"

definition readyEnv :: StartEnv where
  "readyEnv =
     \<lparr>isCameraReady = True, audioCtxResume = NotSuspended, audioRefCurrent = True,
      playResolves = True\<rparr>"

text \<open>The same surroundings, except that \<open>play()\<close> rejects.\<close>

definition blockedEnv :: StartEnv where
  "blockedEnv = readyEnv\<lparr>playResolves := False\<rparr>"

text \<open>\<open>n\<close> direction-correct hits, each followed by a render.\<close>

definition renderedHits :: "nat \<Rightarrow> event list" where
  "renderedHits n = concat (replicate n [Hit sampleNote True, Render])"

text \<open>Ten such hits, then two more hits judged in one frame, before any render.\<close>

definition twoInOneFrame :: "event list" where
  "twoInOneFrame = renderedHits 10 @ [Hit sampleNote True, Hit sampleNote True]"

section \<open>The dwell cursor (HandCursor.tsx)\<close>


text \<open>Arithmetic without rounding error, for the concrete runs further down.\<close>

definition exact :: "real \<Rightarrow> real" where
  "exact v = v"

type_synonym element = nat

record CursorState =
  x_cursor :: real
  y_cursor :: real
  active :: bool
  progress :: real
  hovering :: bool
  color :: string

record InternalState =
  startTime :: real
  lastTarget :: "element option"

text \<open>
  The component's mutable data: the two cursor objects (the array copies made by the
  spread share them, so they are updated in place), the two entries of
  \<open>internalState\<close>, the set of elements that carry the class \<open>data-hand-hover\<close>, and
  the calls of \<open>click()\<close> in order, each with the slot of the cursor whose dwell made
  the call.
\<close>

record HandCursorState =
  cursors :: "CursorState list"
  internalState :: "InternalState list"
  hoverClass :: "element set"
  clicks :: "(nat \<times> element) list"

definition initialCursors :: HandCursorState where
  "initialCursors =
     \<lparr>cursors =
        [\<lparr>x_cursor = 0, y_cursor = 0, active = False, progress = 0, hovering = False,
          color = ''#ff5c8d''\<rparr>,
         \<lparr>x_cursor = 0, y_cursor = 0, active = False, progress = 0, hovering = False,
          color = ''#2de1fc''\<rparr>],
      internalState =
        [\<lparr>startTime = 0, lastTarget = None\<rparr>, \<lparr>startTime = 0, lastTarget = None\<rparr>],
      hoverClass = {}, clicks = []\<rparr>"

definition HOVER_THRESHOLD_MS :: real where
  "HOVER_THRESHOLD_MS = 1000"

definition CURSOR_OFFSET_Y :: real where
  "CURSOR_OFFSET_Y = - 20"

text \<open>
  One detected hand of one frame, with everything the loop body reads while it handles
  that hand: the handedness label, the index fingertip, the window size, the result of
  the hit test (\<open>el?.closest('button')\<close> with its \<open>disabled\<close> attribute), the clock
  read when the target is compared (\<open>nowHover\<close>) and the second clock read that sets
  the cooldown (\<open>nowCooldown\<close>).
\<close>

record HandInput =
  isRight :: bool
  tipX :: real
  tipY :: real
  innerWidth :: real
  innerHeight :: real
  targetButton :: "(element \<times> bool) option"
  nowHover :: real
  nowCooldown :: real

definition cursorIdx :: "HandInput \<Rightarrow> nat" where
  "cursorIdx h = (if isRight h then 1 else 0)"

text \<open>\<open>targetButton && !targetButton.hasAttribute('disabled')\<close>\<close>

fun enabledTarget :: "(element \<times> bool) option \<Rightarrow> element option" where
  "enabledTarget None = None"
| "enabledTarget (Some (b, disabled)) = (if disabled then None else Some b)"

text \<open>
  The branch for a hand that is present. The ripple element added after a click is
  decoration and is left out.
\<close>

definition handPresent ::
    "(real \<Rightarrow> real) \<Rightarrow> HandInput \<Rightarrow> HandCursorState \<Rightarrow> HandCursorState" where
  "handPresent rnd h s =
     (let k = cursorIdx h;
          screenX = rnd (rnd (1 - tipX h) * innerWidth h);
          screenY = rnd (tipY h * innerHeight h);
          currentState = (cursors s ! k)
            \<lparr>active := True, x_cursor := screenX, y_cursor := rnd (screenY + CURSOR_OFFSET_Y)\<rparr>;
          state = internalState s ! k
      in case enabledTarget (targetButton h) of
           Some b \<Rightarrow>
             (if lastTarget state \<noteq> Some b
              then s\<lparr>cursors := (cursors s)[k := currentState\<lparr>hovering := True, progress := 0\<rparr>],
                     internalState :=
                       (internalState s)[k := state\<lparr>lastTarget := Some b, startTime := nowHover h\<rparr>],
                     hoverClass := insert b (hoverClass s)\<rparr>
              else (let elapsed = rnd (nowHover h - startTime state);
                        p = min 1 (rnd (elapsed / HOVER_THRESHOLD_MS))
                    in if p \<ge> 1
                       then s\<lparr>cursors :=
                                (cursors s)[k := currentState\<lparr>hovering := True, progress := 0\<rparr>],
                              internalState :=
                                (internalState s)[k := state\<lparr>startTime := rnd (nowCooldown h + 500)\<rparr>],
                              hoverClass := insert b (hoverClass s),
                              clicks := clicks s @ [(k, b)]\<rparr>
                       else s\<lparr>cursors :=
                                (cursors s)[k := currentState\<lparr>hovering := True, progress := p\<rparr>],
                              hoverClass := insert b (hoverClass s)\<rparr>))
         | None \<Rightarrow>
             s\<lparr>cursors := (cursors s)[k := currentState\<lparr>hovering := False, progress := 0\<rparr>],
               internalState := (internalState s)[k := state\<lparr>lastTarget := None\<rparr>],
               hoverClass :=
                 (case lastTarget state of
                    Some t \<Rightarrow> hoverClass s - {t}
                  | None \<Rightarrow> hoverClass s)\<rparr>)"

text \<open>
  The branch for a missing hand. It is indexed by the loop counter \<open>i\<close>, not by the
  handedness slot.
\<close>

definition handLost :: "nat \<Rightarrow> HandCursorState \<Rightarrow> HandCursorState" where
  "handLost i s =
     (if i < 2
      then (if active (cursors s ! i)
            then s\<lparr>cursors := (cursors s)[i := (cursors s ! i)\<lparr>active := False, hovering := False\<rparr>],
                   internalState := (internalState s)[i := (internalState s ! i)\<lparr>lastTarget := None\<rparr>]\<rparr>
            else s)
      else s)"

text \<open>
  A frame: either there is no result yet, or the detected hands in the order of the
  \<open>landmarks\<close> array (entry \<open>i\<close> exists iff \<open>i\<close> is below its length).
\<close>

datatype frame = NoResults | Results "HandInput list"

definition processIndex ::
    "(real \<Rightarrow> real) \<Rightarrow> HandInput list \<Rightarrow> HandCursorState \<Rightarrow> nat \<Rightarrow> HandCursorState" where
  "processIndex rnd hs s i = (if i < length hs then handPresent rnd (hs ! i) s else handLost i s)"

fun updateLoop :: "(real \<Rightarrow> real) \<Rightarrow> HandCursorState \<Rightarrow> frame \<Rightarrow> HandCursorState" where
  "updateLoop rnd s NoResults = s"
| "updateLoop rnd s (Results hs) = foldl (processIndex rnd hs) s [0, 1]"

definition runFrames ::
    "(real \<Rightarrow> real) \<Rightarrow> HandCursorState \<Rightarrow> frame list \<Rightarrow> HandCursorState" where
  "runFrames rnd s fs = foldl (updateLoop rnd) s fs"

text \<open>Both arrays keep their two entries.\<close>

definition twoSlots :: "HandCursorState \<Rightarrow> bool" where
  "twoSlots s = (length (cursors s) = 2 \<and> length (internalState s) = 2)"

subsection \<open>Observing one cursor\<close>

text \<open>The elements clicked by the dwell of cursor \<open>k\<close>, in order.\<close>

definition clicksOf :: "nat \<Rightarrow> HandCursorState \<Rightarrow> element list" where
  "clicksOf k s = map snd (filter (\<lambda>c. fst c = k) (clicks s))"




subsection \<open>Concrete frames\<close>

text \<open>A left hand, and a right hand, over the enabled button 7 at clock reading \<open>t\<close>.\<close>

definition leftOver :: "real \<Rightarrow> HandInput" where
  "leftOver t =
     \<lparr>isRight = False, tipX = 1 / 2, tipY = 1 / 2, innerWidth = 800, innerHeight = 600,
      targetButton = Some (7, False), nowHover = t, nowCooldown = t\<rparr>"











text \<open>
  The left hand dwells on button 7 for 600 milliseconds; \<open>handGone\<close> is the state
  after a further frame without any hand, \<open>handBack\<close> the state after the hand has
  come back over the same button at 700 milliseconds.
\<close>

definition midDwell :: HandCursorState where
  "midDwell = runFrames exact initialCursors [Results [leftOver 0], Results [leftOver 600]]"

definition handGone :: HandCursorState where
  "handGone = updateLoop exact midDwell (Results [])"

definition handBack :: HandCursorState where
  "handBack = updateLoop exact handGone (Results [leftOver 700])"

section \<open>Multiplier tiers\<close>

lemma comboMultiplier_mono: "c \<le> d \<Longrightarrow> comboMultiplier c \<le> comboMultiplier d"
  by (simp add: comboMultiplier_def)

lemma multiplier_after_hit:
  "multiplier (handleNoteHit m note goodCut st) = comboMultiplier (combo st + 1)"
  by (simp add: handleNoteHit_def Let_def)

text \<open>
  Claim C2. For every combo value \<open>c\<close> the multiplier recomputed after a hit is one of
  1, 2, 4, 8, is non-decreasing in \<open>c\<close>, and is picked by strict thresholds: above 30 it
  is 8, above 20 it is 4, above 10 it is 2, otherwise 1; at a boundary the lower tier
  applies (10 gives 1, 20 gives 2, 21 gives 4, 31 gives 8). The first conjunct ties the
  function to the state cell that a hit writes.
\<close>

theorem C2_multiplier_tiers:
  "multiplier (handleNoteHit m note goodCut st) = comboMultiplier (combo st + 1)
   \<and> comboMultiplier c \<in> {1, 2, 4, 8}
   \<and> (c \<le> d \<longrightarrow> comboMultiplier c \<le> comboMultiplier d)
   \<and> (c > 30 \<longrightarrow> comboMultiplier c = 8)
   \<and> (c > 20 \<and> c \<le> 30 \<longrightarrow> comboMultiplier c = 4)
   \<and> (c > 10 \<and> c \<le> 20 \<longrightarrow> comboMultiplier c = 2)
   \<and> (c \<le> 10 \<longrightarrow> comboMultiplier c = 1)
   \<and> comboMultiplier 10 = 1 \<and> comboMultiplier 11 = 2
   \<and> comboMultiplier 20 = 2 \<and> comboMultiplier 21 = 4
   \<and> comboMultiplier 30 = 4 \<and> comboMultiplier 31 = 8"
proof -
  have tiers: "comboMultiplier c \<in> {1, 2, 4, 8}"
    by (simp add: comboMultiplier_def)
  have thresholds:
    "(c > 30 \<longrightarrow> comboMultiplier c = 8)
     \<and> (c > 20 \<and> c \<le> 30 \<longrightarrow> comboMultiplier c = 4)
     \<and> (c > 10 \<and> c \<le> 20 \<longrightarrow> comboMultiplier c = 2)
     \<and> (c \<le> 10 \<longrightarrow> comboMultiplier c = 1)"
    by (simp add: comboMultiplier_def)
  have boundaries:
    "comboMultiplier 10 = 1 \<and> comboMultiplier 11 = 2
     \<and> comboMultiplier 20 = 2 \<and> comboMultiplier 21 = 4
     \<and> comboMultiplier 30 = 4 \<and> comboMultiplier 31 = 8"
    by (simp add: comboMultiplier_def)
  from multiplier_after_hit tiers comboMultiplier_mono thresholds boundaries
  show ?thesis by blast
qed

theorem C2_multiplier_tiers_witness:
  "(20::int) \<le> 21 \<and> comboMultiplier 20 \<le> comboMultiplier 21
   \<and> (35::int) > 30 \<and> comboMultiplier 35 = 8
   \<and> (25::int) > 20 \<and> (25::int) \<le> 30 \<and> comboMultiplier 25 = 4
   \<and> (15::int) > 10 \<and> (15::int) \<le> 20 \<and> comboMultiplier 15 = 2
   \<and> (3::int) \<le> 10 \<and> comboMultiplier 3 = 1"
  using C2_multiplier_tiers [of 1 sampleNote True "initialState []" 20 21]
    C2_multiplier_tiers [of 1 sampleNote True "initialState []" 35 35]
    C2_multiplier_tiers [of 1 sampleNote True "initialState []" 25 25]
    C2_multiplier_tiers [of 1 sampleNote True "initialState []" 15 15]
    C2_multiplier_tiers [of 1 sampleNote True "initialState []" 3 3]
  by simp

section \<open>Judge events: score and health\<close>

lemma run_snoc: "run s (evs @ [e]) = step (run s evs) e"
  by (simp add: run_def)

lemma step_health_range:
  "0 \<le> health (snd s) \<Longrightarrow> health (snd s) \<le> 100 \<Longrightarrow>
   0 \<le> health (snd (step s e)) \<and> health (snd (step s e)) \<le> 100"
  by (cases s; cases e) (simp_all add: handleNoteHit_def handleNoteMiss_def Let_def)

lemma run_health_range:
  "0 \<le> health (snd s) \<Longrightarrow> health (snd s) \<le> 100 \<Longrightarrow>
   0 \<le> health (snd (run s evs)) \<and> health (snd (run s evs)) \<le> 100"
proof (induction evs rule: rev_induct)
  case Nil
  then show ?case by (simp add: run_def)
next
  case (snoc e evs)
  then show ?case by (simp add: run_snoc step_health_range)
qed

text \<open>
  Claim C3. Whatever sequence of hit and miss events is applied from the initial state
  (health 100), wherever the re-renders fall between them and whatever multiplier the
  closure holds, health lies between 0 and 100 afterwards; since every prefix of a
  sequence is a sequence, this holds after every single update. A hit adds 2 and clamps
  at 100, a miss takes 15 and clamps at 0.
\<close>

theorem C3_health_stays_in_range:
  "0 \<le> health (snd (run (m, initialState c) evs))
   \<and> health (snd (run (m, initialState c) evs)) \<le> 100
   \<and> health (handleNoteHit m' note goodCut st) = min 100 (health st + 2)
   \<and> health (handleNoteMiss note st) = max 0 (health st - 15)"
proof -
  have "0 \<le> health (snd (m, initialState c))" and "health (snd (m, initialState c)) \<le> 100"
    by (simp_all add: initialState_def)
  then have range: "0 \<le> health (snd (run (m, initialState c) evs))
      \<and> health (snd (run (m, initialState c) evs)) \<le> 100"
    by (rule run_health_range)
  have hit_step: "health (handleNoteHit m' note goodCut st) = min 100 (health st + 2)"
    by (simp add: handleNoteHit_def Let_def)
  have miss_step: "health (handleNoteMiss note st) = max 0 (health st - 15)"
    by (simp add: handleNoteMiss_def Let_def)
  from range hit_step miss_step show ?thesis by simp
qed

text \<open>The closure keeps its multiplier until the next render.\<close>

lemma run_no_render_fst: "Render \<notin> set evs \<Longrightarrow> fst (run s evs) = fst s"
proof (induction evs rule: rev_induct)
  case Nil
  then show ?case by (simp add: run_def)
next
  case (snoc e evs)
  then have "fst (run s evs) = fst s" and "e \<noteq> Render" by auto
  then show ?case
    by (cases "run s evs"; cases e) (simp_all add: run_snoc)
qed

lemma run_append: "run s (evs @ evs') = run (run s evs) evs'"
  by (simp add: run_def)

lemma captured_at_last_render:
  "Render \<notin> set evs' \<Longrightarrow> fst (run s (evs @ Render # evs')) = multiplier (snd (run s evs))"
proof -
  assume quiet: "Render \<notin> set evs'"
  have "run s (evs @ Render # evs') = run (step (run s evs) Render) evs'"
    by (simp add: run_def)
  then have "fst (run s (evs @ Render # evs')) = fst (step (run s evs) Render)"
    using quiet by (simp add: run_no_render_fst)
  then show ?thesis by (cases "run s evs") simp
qed

text \<open>
  Along direction-correct hits and renders from the initial session the combo counts the
  hits, the multiplier cell is the tier of the combo, and up to ten hits the closure
  still holds 1.
\<close>

lemma good_run_invariant:
  "list_all goodHitOrRender evs \<Longrightarrow>
   combo (snd (run (initialSession c) evs)) = int (countHits evs)
   \<and> multiplier (snd (run (initialSession c) evs)) = comboMultiplier (int (countHits evs))
   \<and> (countHits evs \<le> 10 \<longrightarrow> fst (run (initialSession c) evs) = 1)"
proof (induction evs rule: rev_induct)
  case Nil
  then show ?case
    by (simp add: run_def initialSession_def initialState_def countHits_def comboMultiplier_def)
next
  case (snoc e evs)
  obtain m st where ms: "run (initialSession c) evs = (m, st)"
    by (cases "run (initialSession c) evs")
  from snoc.prems have good: "list_all goodHitOrRender evs" and last_good: "goodHitOrRender e"
    by simp_all
  from snoc.IH [OF good] ms
  have ih: "combo st = int (countHits evs)"
    "multiplier st = comboMultiplier (int (countHits evs))"
    "countHits evs \<le> 10 \<longrightarrow> m = 1"
    by simp_all
  show ?case
  proof (cases "e")
    case (Hit n goodCut)
    then show ?thesis using ih ms
      by (simp add: run_snoc countHits_def handleNoteHit_def Let_def add.commute)
  next
    case (Miss n)
    then show ?thesis using last_good by simp
  next
    case Render
    then show ?thesis using ih ms
      by (simp add: run_snoc countHits_def comboMultiplier_def)
  qed
qed

lemma eleventh_hit_adds_150:
  assumes "list_all goodHitOrRender evs" and "countHits evs = 10"
  shows "score (snd (step (run (initialSession c) evs) (Hit note True)))
           = score (snd (run (initialSession c) evs)) + (100 + 50) * 1"
proof -
  obtain m st where ms: "run (initialSession c) evs = (m, st)"
    by (cases "run (initialSession c) evs")
  have "m = 1"
    using good_run_invariant [OF assms(1), of c] assms(2) ms by simp
  then show ?thesis
    by (simp add: ms handleNoteHit_def Let_def)
qed

lemma renderedHits_Suc: "renderedHits (Suc n) = renderedHits n @ [Hit sampleNote True, Render]"
proof -
  have "replicate (Suc n) [Hit sampleNote True, Render]
          = replicate n [Hit sampleNote True, Render] @ [[Hit sampleNote True, Render]]"
    by (simp add: replicate_append_same)
  then show ?thesis by (simp add: renderedHits_def)
qed

lemma renderedHits_good: "list_all goodHitOrRender (renderedHits n) \<and> countHits (renderedHits n) = n"
  by (induction n) (simp_all add: renderedHits_Suc, simp_all add: renderedHits_def countHits_def)

lemma run_renderedHits_Suc:
  "run s (renderedHits (Suc n)) = step (step (run s (renderedHits n)) (Hit sampleNote True)) Render"
  by (simp add: renderedHits_Suc run_def)

text \<open>
  Claim C1 as stated fails, even with a render after every hit: after ten
  direction-correct hits in a row the combo is 10 and the multiplier cell is 1; the
  eleventh hit raises the cell to 2 but is itself paid with the captured value 1, so it
  adds 150 and not 300.
\<close>

theorem C1_eleventh_hit_counterexample:
  "combo (snd (run (initialSession []) (renderedHits 10))) = 10
   \<and> multiplier (snd (run (initialSession []) (renderedHits 11))) = 2
   \<and> score (snd (run (initialSession []) (renderedHits 11)))
       = score (snd (run (initialSession []) (renderedHits 10))) + (100 + 50) * 1
   \<and> score (snd (run (initialSession []) (renderedHits 11)))
       \<noteq> score (snd (run (initialSession []) (renderedHits 10))) + (100 + 50) * 2"
proof -
  have g10: "list_all goodHitOrRender (renderedHits 10)" and n10: "countHits (renderedHits 10) = 10"
    using renderedHits_good [of 10] by simp_all
  have g11: "list_all goodHitOrRender (renderedHits 11)" and n11: "countHits (renderedHits 11) = 11"
    using renderedHits_good [of 11] by simp_all
  have c10: "combo (snd (run (initialSession []) (renderedHits 10))) = 10"
    using good_run_invariant [OF g10, of "[]"] n10 by simp
  have m11: "multiplier (snd (run (initialSession []) (renderedHits 11))) = 2"
    using good_run_invariant [OF g11, of "[]"] n11 by (simp add: comboMultiplier_def)
  have "renderedHits 11 = renderedHits (Suc 10)" by simp
  then have "run (initialSession []) (renderedHits 11)
      = step (step (run (initialSession []) (renderedHits 10)) (Hit sampleNote True)) Render"
    by (simp only: run_renderedHits_Suc)
  then have "score (snd (run (initialSession []) (renderedHits 11)))
      = score (snd (step (run (initialSession []) (renderedHits 10)) (Hit sampleNote True)))"
    by (cases "step (run (initialSession []) (renderedHits 10)) (Hit sampleNote True)") simp
  with eleventh_hit_adds_150 [OF g10 n10, of "[]" sampleNote]
  have s: "score (snd (run (initialSession []) (renderedHits 11)))
      = score (snd (run (initialSession []) (renderedHits 10))) + (100 + 50) * 1"
    by simp
  from c10 m11 s show ?thesis by simp
qed

text \<open>
  Claim C1, amended. The points of a hit are the base points (100, plus 50 for a correct
  direction) times the multiplier held by the closure of the handler, which is the
  multiplier cell as of the last render before the hit and is not recomputed from the
  combo that this hit increments. From the initial state, after ten direction-correct
  hits in a row the eleventh adds \<open>(100 + 50) * 1\<close>, wherever the renders fall.
\<close>

theorem C1_points_use_captured_multiplier:
  "score (handleNoteHit m note goodCut st)
     = score st + (if goodCut then 100 + 50 else 100) * m
   \<and> score (snd (step (m, st) (Hit note goodCut)))
     = score st + (if goodCut then 100 + 50 else 100) * m
   \<and> (Render \<notin> set evs'
        \<longrightarrow> fst (run s (evs @ Render # evs')) = multiplier (snd (run s evs)))
   \<and> (list_all goodHitOrRender hits \<and> countHits hits = 10
        \<longrightarrow> score (snd (step (run (initialSession c) hits) (Hit note True)))
             = score (snd (run (initialSession c) hits)) + (100 + 50) * 1)"
proof -
  have general: "score (handleNoteHit m note goodCut st)
      = score st + (if goodCut then 100 + 50 else 100) * m"
    by (simp add: handleNoteHit_def Let_def)
  then have stepped: "score (snd (step (m, st) (Hit note goodCut)))
      = score st + (if goodCut then 100 + 50 else 100) * m"
    by simp
  from general stepped captured_at_last_render eleventh_hit_adds_150
  show ?thesis by blast
qed

theorem C1_points_use_captured_multiplier_witness:
  "Render \<notin> set [Hit sampleNote True]
   \<and> fst (run (initialSession []) (renderedHits 9 @ [Hit sampleNote True] @ Render # [Hit sampleNote True]))
       = multiplier (snd (run (initialSession []) (renderedHits 9 @ [Hit sampleNote True])))
   \<and> list_all goodHitOrRender (renderedHits 10) \<and> countHits (renderedHits 10) = 10
   \<and> score (snd (step (run (initialSession []) (renderedHits 10)) (Hit sampleNote True)))
       = score (snd (run (initialSession []) (renderedHits 10))) + 150"
proof -
  have quiet: "Render \<notin> set [Hit sampleNote True]" by simp
  have good: "list_all goodHitOrRender (renderedHits 10) \<and> countHits (renderedHits 10) = 10"
    using renderedHits_good [of 10] by simp
  note fact = C1_points_use_captured_multiplier
      [of 1 sampleNote True "initialState []" "[Hit sampleNote True]" "initialSession []"
          "renderedHits 9 @ [Hit sampleNote True]" "renderedHits 10" "[]"]
  from fact quiet have cap:
    "fst (run (initialSession []) ((renderedHits 9 @ [Hit sampleNote True]) @ Render # [Hit sampleNote True]))
       = multiplier (snd (run (initialSession []) (renderedHits 9 @ [Hit sampleNote True])))"
    by blast
  from fact good have eleventh:
    "score (snd (step (run (initialSession []) (renderedHits 10)) (Hit sampleNote True)))
       = score (snd (run (initialSession []) (renderedHits 10))) + (100 + 50) * 1"
    by blast
  from quiet cap good eleventh show ?thesis by simp
qed

text \<open>
  Ten hits with a render after each, then the eleventh and the twelfth hit judged in one
  frame: both go through the closure of the tenth render and add 150 each, although the
  multiplier cell is 2 after the eleventh.
\<close>

lemma two_hits_in_one_frame:
  "score (snd (run (initialSession []) twoInOneFrame)) = 1800
   \<and> multiplier (snd (run (initialSession []) twoInOneFrame)) = 2
   \<and> fst (run (initialSession []) twoInOneFrame) = 1"
  by (simp add: twoInOneFrame_def renderedHits_def run_def initialSession_def initialState_def
      handleNoteHit_def comboMultiplier_def Let_def eval_nat_numeral)

section \<open>A miss\<close>

lemma runTimers_last:
  "timers st = ts @ [EndGame False] \<Longrightarrow> gameStatus (runTimers st) = GAME_OVER"
  by (simp add: runTimers_def endGame_def)

text \<open>
  Claim C4. A miss sets the combo to 0 and the multiplier to 1 whatever they were, and
  takes 15 from health; when that reaches 0 or less, health is stored as 0 and
  \<open>endGame(false)\<close> is put on the timer queue. The phase is untouched by the update
  itself and becomes \<open>GAME_OVER\<close> only when the queued task runs.
\<close>

theorem C4_miss_resets_and_defers_game_over:
  "combo (handleNoteMiss note st) = 0
   \<and> multiplier (handleNoteMiss note st) = 1
   \<and> health (handleNoteMiss note st) = (if health st - 15 \<le> 0 then 0 else health st - 15)
   \<and> gameStatus (handleNoteMiss note st) = gameStatus st
   \<and> timers (handleNoteMiss note st)
       = (if health st - 15 \<le> 0 then timers st @ [EndGame False] else timers st)
   \<and> (health st - 15 \<le> 0 \<longrightarrow> gameStatus (runTimers (handleNoteMiss note st)) = GAME_OVER)"
proof -
  have fields:
    "combo (handleNoteMiss note st) = 0
     \<and> multiplier (handleNoteMiss note st) = 1
     \<and> health (handleNoteMiss note st) = (if health st - 15 \<le> 0 then 0 else health st - 15)
     \<and> gameStatus (handleNoteMiss note st) = gameStatus st"
    by (simp add: handleNoteMiss_def Let_def)
  have queue: "timers (handleNoteMiss note st)
       = (if health st - 15 \<le> 0 then timers st @ [EndGame False] else timers st)"
    by (simp add: handleNoteMiss_def Let_def)
  have later: "health st - 15 \<le> 0 \<longrightarrow> gameStatus (runTimers (handleNoteMiss note st)) = GAME_OVER"
    using queue by (auto intro: runTimers_last)
  from fields queue later show ?thesis by simp
qed

theorem C4_miss_resets_and_defers_game_over_witness:
  "health (playingState 15) - 15 \<le> 0
   \<and> combo (handleNoteMiss sampleNote (playingState 15)) = 0
   \<and> multiplier (handleNoteMiss sampleNote (playingState 15)) = 1
   \<and> health (handleNoteMiss sampleNote (playingState 15)) = 0
   \<and> gameStatus (handleNoteMiss sampleNote (playingState 15)) = PLAYING
   \<and> timers (handleNoteMiss sampleNote (playingState 15)) = [EndGame False]
   \<and> gameStatus (runTimers (handleNoteMiss sampleNote (playingState 15))) = GAME_OVER"
  using C4_miss_resets_and_defers_game_over [of sampleNote "playingState 15"]
  by (simp add: playingState_def initialState_def)

section \<open>Starting a game\<close>

lemma resetNote_fields:
  "hit (resetNote n) = Some False \<and> missed (resetNote n) = Some False
   \<and> hitTime (resetNote n) = hitTime n \<and> id_note (resetNote n) = id_note n
   \<and> time (resetNote n) = time n \<and> lineIndex (resetNote n) = lineIndex n
   \<and> lineLayer (resetNote n) = lineLayer n \<and> type_note (resetNote n) = type_note n
   \<and> cutDirection (resetNote n) = cutDirection n"
  by (simp add: resetNote_def)

lemma startGame_ready:
  "isCameraReady env \<Longrightarrow> audioCtxResume env \<noteq> ResumeRejected \<Longrightarrow>
   startGame env st = Inr (startAudio env (resetGame st))"
  by (simp add: startGame_def)

lemma chart_startAudio: "chart (startAudio env st) = chart st"
  by (simp add: startAudio_def)

text \<open>
  Claim C5 as stated fails: the loop over the chart assigns \<open>hit\<close> and \<open>missed\<close>
  only. A note cut at time 4 in an earlier session still carries \<open>hitTime = 4\<close> after
  a start that reaches \<open>PLAYING\<close>.
\<close>

theorem C5_hitTime_survives_counterexample:
  "\<not> isl (startGame readyEnv idleState)
   \<and> gameStatus (projr (startGame readyEnv idleState)) = PLAYING
   \<and> map hitTime (chart idleState) = [Some 4]
   \<and> map hitTime (chart (projr (startGame readyEnv idleState))) = [Some 4]
   \<and> map hitTime (chart (projr (startGame readyEnv idleState))) \<noteq> [None]"
  by (simp add: startGame_def readyEnv_def idleState_def initialState_def startAudio_def
      resetGame_def resetNote_def judgedNote_def sampleNote_def)

text \<open>
  Claim C5, amended. Entering the \<open>PLAYING\<close> phase sets \<open>hit\<close> and \<open>missed\<close> of every
  chart note to \<open>false\<close> and changes no other field of any note: \<open>hitTime\<close>, \<open>id\<close>,
  \<open>time\<close>, \<open>lineIndex\<close>, \<open>lineLayer\<close>, \<open>type\<close> and \<open>cutDirection\<close> stay as they
  were. The phase is entered by a start action that returns with the phase \<open>PLAYING\<close>
  from a state that was in another phase.
\<close>

theorem C5_start_resets_flags_only:
  assumes "startGame env st = Inr st'"
    and "gameStatus st \<noteq> PLAYING"
    and "gameStatus st' = PLAYING"
  shows "length (chart st') = length (chart st)
      \<and> (\<forall>i < length (chart st).
            hit (chart st' ! i) = Some False
          \<and> missed (chart st' ! i) = Some False
          \<and> hitTime (chart st' ! i) = hitTime (chart st ! i)
          \<and> id_note (chart st' ! i) = id_note (chart st ! i)
          \<and> time (chart st' ! i) = time (chart st ! i)
          \<and> lineIndex (chart st' ! i) = lineIndex (chart st ! i)
          \<and> lineLayer (chart st' ! i) = lineLayer (chart st ! i)
          \<and> type_note (chart st' ! i) = type_note (chart st ! i)
          \<and> cutDirection (chart st' ! i) = cutDirection (chart st ! i))"
proof -
  have ready: "isCameraReady env"
  proof (rule ccontr)
    assume "\<not> isCameraReady env"
    then have "st' = st" using assms(1) by (simp add: startGame_def)
    then show False using assms(2,3) by simp
  qed
  have resumed: "audioCtxResume env \<noteq> ResumeRejected"
    using assms(1) ready by (auto simp add: startGame_def)
  have "startGame env st = Inr (startAudio env (resetGame st))"
    using ready resumed by (rule startGame_ready)
  then have st': "st' = startAudio env (resetGame st)"
    using assms(1) by simp
  have ch: "chart st' = map resetNote (chart st)"
    by (simp add: st' chart_startAudio resetGame_def)
  have len: "length (chart st') = length (chart st)"
    by (simp add: ch)
  have each: "\<forall>i < length (chart st).
            hit (chart st' ! i) = Some False
          \<and> missed (chart st' ! i) = Some False
          \<and> hitTime (chart st' ! i) = hitTime (chart st ! i)
          \<and> id_note (chart st' ! i) = id_note (chart st ! i)
          \<and> time (chart st' ! i) = time (chart st ! i)
          \<and> lineIndex (chart st' ! i) = lineIndex (chart st ! i)
          \<and> lineLayer (chart st' ! i) = lineLayer (chart st ! i)
          \<and> type_note (chart st' ! i) = type_note (chart st ! i)
          \<and> cutDirection (chart st' ! i) = cutDirection (chart st ! i)"
    by (simp add: ch resetNote_fields)
  from len each show ?thesis by blast
qed

theorem C5_start_resets_flags_only_witness:
  "startGame readyEnv idleState = Inr (projr (startGame readyEnv idleState))
   \<and> gameStatus idleState \<noteq> PLAYING
   \<and> gameStatus (projr (startGame readyEnv idleState)) = PLAYING
   \<and> (0::nat) < length (chart idleState)
   \<and> hit (chart idleState ! 0) = Some True
   \<and> hit (chart (projr (startGame readyEnv idleState)) ! 0) = Some False
   \<and> missed (chart (projr (startGame readyEnv idleState)) ! 0) = Some False
   \<and> hitTime (chart (projr (startGame readyEnv idleState)) ! 0) = Some 4
   \<and> time (chart (projr (startGame readyEnv idleState)) ! 0) = 4"
proof -
  have ret: "startGame readyEnv idleState = Inr (projr (startGame readyEnv idleState))"
    by (simp add: startGame_def readyEnv_def)
  have before: "gameStatus idleState \<noteq> PLAYING"
    by (simp add: idleState_def initialState_def)
  have after: "gameStatus (projr (startGame readyEnv idleState)) = PLAYING"
    by (simp add: startGame_def readyEnv_def startAudio_def)
  have len: "(0::nat) < length (chart idleState)"
    by (simp add: idleState_def initialState_def)
  have old: "hit (chart idleState ! 0) = Some True \<and> hitTime (chart idleState ! 0) = Some 4
      \<and> time (chart idleState ! 0) = 4"
    by (simp add: idleState_def initialState_def judgedNote_def sampleNote_def)
  from C5_start_resets_flags_only [OF ret before after] len
  have "hit (chart (projr (startGame readyEnv idleState)) ! 0) = Some False
      \<and> missed (chart (projr (startGame readyEnv idleState)) ! 0) = Some False
      \<and> hitTime (chart (projr (startGame readyEnv idleState)) ! 0) = hitTime (chart idleState ! 0)
      \<and> time (chart (projr (startGame readyEnv idleState)) ! 0) = time (chart idleState ! 0)"
    by blast
  with ret before after len old show ?thesis by simp
qed

lemma startAudio_rejected:
  "audioRefCurrent env \<Longrightarrow> \<not> playResolves env \<Longrightarrow>
   startAudio env st = st\<lparr>alerts := alerts st @ [alertText]\<rparr>"
  by (simp add: startAudio_def)

lemma startAudio_resolved:
  "audioRefCurrent env \<Longrightarrow> playResolves env \<Longrightarrow>
   startAudio env st = st\<lparr>audioPlaying := True, gameStatus := PLAYING\<rparr>"
  by (simp add: startAudio_def)

text \<open>
  Claim C9. When the start action runs and \<open>play()\<close> rejects, the phase is what it
  was before; the rejection is caught (the action returns normally and an alert is
  shown), and a second start from the resulting state, this time with \<open>play()\<close>
  resolving, reaches \<open>PLAYING\<close>.
\<close>

theorem C9_failed_audio_keeps_phase:
  assumes "isCameraReady env" and "audioCtxResume env \<noteq> ResumeRejected"
    and "audioRefCurrent env" and "\<not> playResolves env"
  shows "\<exists>st'. startGame env st = Inr st'
      \<and> gameStatus st' = gameStatus st
      \<and> alerts st' = alerts st @ [alertText]
      \<and> (\<exists>st''. startGame (env\<lparr>playResolves := True\<rparr>) st' = Inr st''
             \<and> gameStatus st'' = PLAYING)"
proof -
  let ?st' = "startAudio env (resetGame st)"
  let ?env2 = "env\<lparr>playResolves := True\<rparr>"
  have first: "startGame env st = Inr ?st'"
    using assms(1,2) by (rule startGame_ready)
  have failed: "?st' = (resetGame st)\<lparr>alerts := alerts (resetGame st) @ [alertText]\<rparr>"
    using assms(3,4) by (rule startAudio_rejected)
  have phase: "gameStatus ?st' = gameStatus st"
    by (subst failed) (simp add: resetGame_def)
  have msg: "alerts ?st' = alerts st @ [alertText]"
    by (subst failed) (simp add: resetGame_def)
  have "isCameraReady ?env2" and "audioCtxResume ?env2 \<noteq> ResumeRejected"
    using assms(1,2) by simp_all
  then have again: "startGame ?env2 ?st' = Inr (startAudio ?env2 (resetGame ?st'))"
    by (rule startGame_ready)
  have "audioRefCurrent ?env2" and "playResolves ?env2"
    using assms(3) by simp_all
  then have "gameStatus (startAudio ?env2 (resetGame ?st')) = PLAYING"
    by (simp add: startAudio_resolved)
  with first phase msg again show ?thesis by blast
qed

theorem C9_failed_audio_keeps_phase_witness:
  "isCameraReady blockedEnv \<and> audioCtxResume blockedEnv \<noteq> ResumeRejected
   \<and> audioRefCurrent blockedEnv \<and> \<not> playResolves blockedEnv
   \<and> \<not> isl (startGame blockedEnv idleState)
   \<and> gameStatus (projr (startGame blockedEnv idleState)) = IDLE
   \<and> alerts (projr (startGame blockedEnv idleState)) = [alertText]
   \<and> gameStatus (projr (startGame (blockedEnv\<lparr>playResolves := True\<rparr>)
         (projr (startGame blockedEnv idleState)))) = PLAYING"
proof -
  have h: "isCameraReady blockedEnv" "audioCtxResume blockedEnv \<noteq> ResumeRejected"
    "audioRefCurrent blockedEnv" "\<not> playResolves blockedEnv"
    by (simp_all add: blockedEnv_def readyEnv_def)
  have idle: "gameStatus idleState = IDLE" "alerts idleState = []"
    by (simp_all add: idleState_def initialState_def)
  from C9_failed_audio_keeps_phase [OF h, of idleState]
  obtain st' st'' where "startGame blockedEnv idleState = Inr st'"
    and "gameStatus st' = gameStatus idleState"
    and "alerts st' = alerts idleState @ [alertText]"
    and "startGame (blockedEnv\<lparr>playResolves := True\<rparr>) st' = Inr st''"
    and "gameStatus st'' = PLAYING"
    by blast
  with h idle show ?thesis by simp
qed

text \<open>
  Claim C10. The start action is not atomic: when \<open>play()\<close> rejects, the state left
  behind is the reset state (score 0, combo 0, multiplier 1, health 100, every note's
  \<open>hit\<close> and \<open>missed\<close> false) with the old phase and one more alert; the resets
  were written before the audio was tried and are not rolled back.
\<close>

theorem C10_resets_precede_audio:
  assumes "isCameraReady env" and "audioCtxResume env \<noteq> ResumeRejected"
    and "audioRefCurrent env" and "\<not> playResolves env"
  shows "\<exists>st'. startGame env st = Inr st'
      \<and> st' = (resetGame st)\<lparr>alerts := alerts st @ [alertText]\<rparr>
      \<and> gameStatus st' = gameStatus st
      \<and> score st' = 0 \<and> combo st' = 0 \<and> multiplier st' = 1 \<and> health st' = 100
      \<and> map hit (chart st') = replicate (length (chart st)) (Some False)
      \<and> map missed (chart st') = replicate (length (chart st)) (Some False)"
proof -
  let ?st' = "(resetGame st)\<lparr>alerts := alerts st @ [alertText]\<rparr>"
  have "startGame env st = Inr (startAudio env (resetGame st))"
    using assms(1,2) by (rule startGame_ready)
  moreover have "startAudio env (resetGame st)
      = (resetGame st)\<lparr>alerts := alerts (resetGame st) @ [alertText]\<rparr>"
    using assms(3,4) by (rule startAudio_rejected)
  moreover have "alerts (resetGame st) = alerts st"
    by (simp add: resetGame_def)
  ultimately have res: "startGame env st = Inr ?st'"
    by simp
  have cells: "gameStatus ?st' = gameStatus st
      \<and> score ?st' = 0 \<and> combo ?st' = 0 \<and> multiplier ?st' = 1 \<and> health ?st' = 100"
    by (simp add: resetGame_def)
  have flags: "map hit (chart ?st') = replicate (length (chart st)) (Some False)
      \<and> map missed (chart ?st') = replicate (length (chart st)) (Some False)"
    by (simp add: resetGame_def resetNote_def map_replicate_const comp_def)
  from res cells flags show ?thesis by blast
qed

theorem C10_resets_precede_audio_witness:
  "isCameraReady blockedEnv \<and> audioCtxResume blockedEnv \<noteq> ResumeRejected
   \<and> audioRefCurrent blockedEnv \<and> \<not> playResolves blockedEnv
   \<and> score idleState = 700 \<and> combo idleState = 3
   \<and> map hit (chart idleState) = [Some True]
   \<and> gameStatus (projr (startGame blockedEnv idleState)) = IDLE
   \<and> score (projr (startGame blockedEnv idleState)) = 0
   \<and> combo (projr (startGame blockedEnv idleState)) = 0
   \<and> multiplier (projr (startGame blockedEnv idleState)) = 1
   \<and> health (projr (startGame blockedEnv idleState)) = 100
   \<and> map hit (chart (projr (startGame blockedEnv idleState))) = [Some False]
   \<and> map missed (chart (projr (startGame blockedEnv idleState))) = [Some False]"
proof -
  have h: "isCameraReady blockedEnv" "audioCtxResume blockedEnv \<noteq> ResumeRejected"
    "audioRefCurrent blockedEnv" "\<not> playResolves blockedEnv"
    by (simp_all add: blockedEnv_def readyEnv_def)
  have before: "score idleState = 700 \<and> combo idleState = 3
      \<and> map hit (chart idleState) = [Some True] \<and> gameStatus idleState = IDLE
      \<and> length (chart idleState) = 1"
    by (simp add: idleState_def initialState_def judgedNote_def)
  from C10_resets_precede_audio [OF h, of idleState]
  obtain st' where "startGame blockedEnv idleState = Inr st'"
    and "gameStatus st' = gameStatus idleState"
    and "score st' = 0" and "combo st' = 0" and "multiplier st' = 1" and "health st' = 100"
    and "map hit (chart st') = replicate (length (chart idleState)) (Some False)"
    and "map missed (chart st') = replicate (length (chart idleState)) (Some False)"
    by blast
  with h before show ?thesis by simp
qed

section \<open>One step of one cursor\<close>


lemma twoSlots_handPresent: "twoSlots s \<Longrightarrow> twoSlots (handPresent rnd h s)"
  by (simp add: twoSlots_def handPresent_def Let_def split: option.splits)


lemma clicksOf_append: "clicksOf k (s\<lparr>clicks := clicks s @ [(j, b)]\<rparr>)
    = (if j = k then clicksOf k s @ [b] else clicksOf k s)"
  by (simp add: clicksOf_def)









section \<open>One frame of one cursor\<close>








section \<open>The dwell fraction\<close>







section \<open>Dwell progress\<close>


















section \<open>Activation and cooldown\<close>





section \<open>Losing the hand\<close>

lemma handLost_keeps:
  "progress (cursors (handLost i s) ! j) = progress (cursors s ! j)
   \<and> hoverClass (handLost i s) = hoverClass s"
proof (cases "i < length (cursors s)")
  case True
  then show ?thesis by (cases "i = j") (simp_all add: handLost_def)
next
  case False
  then show ?thesis by (simp add: handLost_def list_update_beyond)
qed

lemma midDwell_eq:
  "midDwell = \<lparr>cursors =
        [\<lparr>x_cursor = 400, y_cursor = 280, active = True, progress = 6 / 10, hovering = True,
          color = ''#ff5c8d''\<rparr>,
         \<lparr>x_cursor = 0, y_cursor = 0, active = False, progress = 0, hovering = False,
          color = ''#2de1fc''\<rparr>],
      internalState =
        [\<lparr>startTime = 0, lastTarget = Some 7\<rparr>, \<lparr>startTime = 0, lastTarget = None\<rparr>],
      hoverClass = {7}, clicks = []\<rparr>"
  by (simp add: midDwell_def runFrames_def processIndex_def handLost_def handPresent_def
      leftOver_def initialCursors_def cursorIdx_def CURSOR_OFFSET_Y_def HOVER_THRESHOLD_MS_def
      exact_def Let_def)

lemma handGone_eq:
  "handGone = \<lparr>cursors =
        [\<lparr>x_cursor = 400, y_cursor = 280, active = False, progress = 6 / 10, hovering = False,
          color = ''#ff5c8d''\<rparr>,
         \<lparr>x_cursor = 0, y_cursor = 0, active = False, progress = 0, hovering = False,
          color = ''#2de1fc''\<rparr>],
      internalState =
        [\<lparr>startTime = 0, lastTarget = None\<rparr>, \<lparr>startTime = 0, lastTarget = None\<rparr>],
      hoverClass = {7}, clicks = []\<rparr>"
  by (simp add: handGone_def midDwell_eq processIndex_def handLost_def)

lemma handBack_eq:
  "handBack = \<lparr>cursors =
        [\<lparr>x_cursor = 400, y_cursor = 280, active = True, progress = 0, hovering = True,
          color = ''#ff5c8d''\<rparr>,
         \<lparr>x_cursor = 0, y_cursor = 0, active = False, progress = 0, hovering = False,
          color = ''#2de1fc''\<rparr>],
      internalState =
        [\<lparr>startTime = 700, lastTarget = Some 7\<rparr>, \<lparr>startTime = 0, lastTarget = None\<rparr>],
      hoverClass = {7}, clicks = []\<rparr>"
  by (simp add: handBack_def handGone_eq processIndex_def handLost_def handPresent_def
      leftOver_def cursorIdx_def CURSOR_OFFSET_Y_def exact_def Let_def)

text \<open>
  Claim C7 against the code. The branch for a missing hand never writes \<open>progress\<close>
  and never touches the \<open>data-hand-hover\<close> class, in any state. On the run where the
  left hand dwells on button 7 for 600 milliseconds and then disappears, the cursor is
  hidden, its hover flag and its stored target are cleared, but its progress is still
  6/10 and button 7 still carries the class. When the hand comes back over the same
  button at 700 the dwell starts again from 0.
\<close>

theorem C7_hand_lost_keeps_progress_and_marker:
  "progress (cursors (handLost i s) ! j) = progress (cursors s ! j)
   \<and> hoverClass (handLost i s) = hoverClass s
   \<and> progress (cursors midDwell ! 0) = 6 / 10
   \<and> lastTarget (internalState midDwell ! 0) = Some 7
   \<and> 7 \<in> hoverClass midDwell
   \<and> \<not> active (cursors handGone ! 0)
   \<and> \<not> hovering (cursors handGone ! 0)
   \<and> lastTarget (internalState handGone ! 0) = None
   \<and> progress (cursors handGone ! 0) = 6 / 10
   \<and> progress (cursors handGone ! 0) \<noteq> 0
   \<and> 7 \<in> hoverClass handGone
   \<and> progress (cursors handBack ! 0) = 0
   \<and> startTime (internalState handBack ! 0) = 700"
  using handLost_keeps [of i s j]
  by (simp add: midDwell_eq handGone_eq handBack_eq)

section \<open>A right hand seen alone\<close>

text \<open>
  A right hand seen alone is entry 0 of the result and drives cursor 1; entry 1 is then
  missing and the branch for a missing hand, indexed by the loop counter, clears cursor 1
  again within the same frame.
\<close>

lemma lone_right_hand_forgets_target:
  assumes "twoSlots s" and "isRight h"
  shows "lastTarget (internalState (updateLoop rnd s (Results [h])) ! 1) = None
      \<and> \<not> active (cursors (updateLoop rnd s (Results [h])) ! 1)"
proof -
  have k: "cursorIdx h = 1" using assms(2) by (simp add: cursorIdx_def)
  have two: "twoSlots (handPresent rnd h s)"
    using assms(1) by (rule twoSlots_handPresent)
  have act: "active (cursors (handPresent rnd h s) ! 1)"
    using assms(1) k by (simp add: handPresent_def Let_def twoSlots_def split: option.splits)
  have "updateLoop rnd s (Results [h]) = handLost 1 (handPresent rnd h s)"
    by (simp add: processIndex_def)
  then show ?thesis
    using two act by (simp add: handLost_def twoSlots_def)
qed

end
